theory Spec2Isabelle
  imports Main
begin

section \<open>Result files as the XML library presents them\<close>

text \<open>
  Both parsers read the result file with \<open>etree.parse(...).getroot()\<close> and then use only
  four things of an element: its \<open>tag\<close>, its attributes (through \<open>get\<close>), its \<open>text\<close>
  (\<open>None\<close> when the element has no text) and its child elements (through iteration,
  \<open>len\<close> and indexing). An element is modelled by exactly these four parts. Comments and
  processing instructions are left out of the model.
\<close>

datatype element =
  Element (tag: string) (attrib: "(string \<times> string) list")
          (etext: "string option") (children: "element list")

definition get :: "element \<Rightarrow> string \<Rightarrow> string option" where
  "get e key = map_of (attrib e) key"

definition get_default :: "element \<Rightarrow> string \<Rightarrow> string \<Rightarrow> string" where
  "get_default e key d = (case get e key of None \<Rightarrow> d | Some v \<Rightarrow> v)"

text \<open>The exceptions of Python that the two modules can raise, as values.\<close>

datatype pyerror =
    OSError
  | XMLSyntaxError
  | ValueError string
  | TypeError
  | KeyError string
  | AttributeError
  | RuntimeError

text \<open>
  What a path of the file system holds: a file that cannot be opened, a file that is not
  XML, or an XML document with its root element. A path with no file maps to \<open>None\<close>.
\<close>

datatype file_content = Unreadable | NotXML | Document element

type_synonym filesystem = "string \<Rightarrow> file_content option"

text \<open>
  \<open>etree.parse(name).getroot()\<close>: the library raises \<open>OSError\<close> when the file is missing
  or cannot be read and \<open>XMLSyntaxError\<close> (not an \<open>OSError\<close>) when its content is not XML.
\<close>

definition etree_parse :: "filesystem \<Rightarrow> string \<Rightarrow> pyerror + element" where
  "etree_parse fs filename =
     (case fs filename of
        None \<Rightarrow> Inl OSError
      | Some Unreadable \<Rightarrow> Inl OSError
      | Some NotXML \<Rightarrow> Inl XMLSyntaxError
      | Some (Document root) \<Rightarrow> Inr root)"

text \<open>
  Lines 180-183 of testrunner.py and 56-59 of noserunner.py:
  \<^verbatim>\<open>
  try:
      data = etree.parse(self.resultfilename).getroot()
  except OSError:
      data = []
  \<close>
  Iterating over the root yields its children; any other exception propagates.
\<close>

definition read_data :: "filesystem \<Rightarrow> string \<Rightarrow> pyerror + element list" where
  "read_data fs filename =
     (case etree_parse fs filename of
        Inl OSError \<Rightarrow> Inr []
      | Inl e \<Rightarrow> Inl e
      | Inr root \<Rightarrow> Inr (children root))"

section \<open>Test results\<close>

datatype Category = OK | FAIL | SKIP

text \<open>
  The named tuple \<open>TestResult\<close>. The type \<open>'f\<close> is the type of Python floats: the
  builtin \<open>float\<close> is a parameter of the model.
\<close>

record 'f TestResult =
  category :: Category
  status :: string
  name :: string
  message :: string
  time :: 'f
  extra_text :: string

definition STATUS_TO_CATEGORY :: "string \<rightharpoonup> Category" where
  "STATUS_TO_CATEGORY =
     [''ok'' \<mapsto> OK, ''failure'' \<mapsto> FAIL, ''error'' \<mapsto> FAIL, ''skipped'' \<mapsto> SKIP]"

text \<open>\<open>str(x)\<close> of a value that is a string or \<open>None\<close>, as \<open>format\<close> and f-strings apply it.\<close>

definition py_str :: "string option \<Rightarrow> string" where
  "py_str v = (case v of None \<Rightarrow> ''None'' | Some s \<Rightarrow> s)"

text \<open>
  \<open>float(x)\<close> of a value that is a string or \<open>None\<close>. The parameter \<open>pf\<close> is the builtin
  on strings, with \<open>None\<close> where it raises \<open>ValueError\<close>; \<open>float(None)\<close> raises
  \<open>TypeError\<close>. The message of the \<open>ValueError\<close> ends with the rejected string (Python
  shows it quoted).
\<close>

definition py_float :: "(string \<Rightarrow> 'f option) \<Rightarrow> string option \<Rightarrow> pyerror + 'f" where
  "py_float pf v =
     (case v of
        None \<Rightarrow> Inl TypeError
      | Some s \<Rightarrow>
          (case pf s of
             None \<Rightarrow> Inl (ValueError (''could not convert string to float: '' @ s))
           | Some x \<Rightarrow> Inr x))"

text \<open>The name of a record, built the same way in both modules.\<close>

definition testcase_name :: "element \<Rightarrow> string" where
  "testcase_name testcase =
     py_str (get testcase ''classname'') @ ''.'' @ py_str (get testcase ''name'')"

section \<open>TestRunner.load_data (testrunner.py)\<close>

text \<open>
  Lines 193-198: the message of the first child.
  \<^verbatim>\<open>
  type_ = test_error.get('type')
  message = test_error.get('message', default='')
  if type_ and message:
      message = '{0}: {1}'.format(type_, message)
  elif type_:
      message = type_
  \<close>
\<close>

definition TestRunner_message :: "element \<Rightarrow> string" where
  "TestRunner_message test_error =
     (let typ = get test_error ''type'';
          message = get_default test_error ''message'' ''''
      in case typ of
           None \<Rightarrow> message
         | Some t \<Rightarrow>
             if t \<noteq> [] \<and> message \<noteq> [] then t @ '': '' @ message
             else if t \<noteq> [] then t
             else message)"

text \<open>The body of the loop, lines 187-205, for one child of the root.\<close>

definition TestRunner_testcase ::
  "(string \<Rightarrow> 'f option) \<Rightarrow> element \<Rightarrow> pyerror + 'f TestResult" where
  "TestRunner_testcase pf testcase =
     (let name = testcase_name testcase in
      case py_float pf (get testcase ''time'') of
        Inl e \<Rightarrow> Inl e
      | Inr tm \<Rightarrow>
          (let (status, message, extra_text) =
                 (case children testcase of
                    test_error # _ \<Rightarrow>
                      (tag test_error, TestRunner_message test_error,
                       (case etext test_error of
                          None \<Rightarrow> ''''
                        | Some t \<Rightarrow> t))
                  | [] \<Rightarrow> (''ok'', '''', ''''))
           in case STATUS_TO_CATEGORY status of
                None \<Rightarrow> Inl (KeyError status)
              | Some cat \<Rightarrow>
                  Inr \<lparr>category = cat, status = status, name = name,
                       message = message, time = tm, extra_text = extra_text\<rparr>))"

text \<open>The loop \<open>for testcase in data\<close>; \<open>testresults\<close> is the list built so far.\<close>

fun TestRunner_loop ::
  "(string \<Rightarrow> 'f option) \<Rightarrow> element list \<Rightarrow> 'f TestResult list \<Rightarrow> pyerror + 'f TestResult list"
where
  "TestRunner_loop pf [] testresults = Inr testresults"
| "TestRunner_loop pf (testcase # data) testresults =
     (case TestRunner_testcase pf testcase of
        Inl e \<Rightarrow> Inl e
      | Inr r \<Rightarrow> TestRunner_loop pf data (testresults @ [r]))"

definition TestRunner_load_data ::
  "(string \<Rightarrow> 'f option) \<Rightarrow> filesystem \<Rightarrow> string \<Rightarrow> pyerror + 'f TestResult list" where
  "TestRunner_load_data pf fs resultfilename =
     (case read_data fs resultfilename of
        Inl e \<Rightarrow> Inl e
      | Inr data \<Rightarrow> TestRunner_loop pf data [])"

section \<open>NoseRunner.load_data (noserunner.py)\<close>

text \<open>\<open>s.rstrip('\n')\<close>: the string without its trailing newlines.\<close>

definition rstrip_newline :: "string \<Rightarrow> string" where
  "rstrip_newline s = rev (dropWhile (\<lambda>c. c = CHR 0x0A) (rev s))"

text \<open>\<open>sep.join(xs)\<close>.\<close>

fun py_join :: "string \<Rightarrow> string list \<Rightarrow> string" where
  "py_join sep [] = []"
| "py_join sep [x] = x"
| "py_join sep (x # y # ys) = x @ sep @ py_join sep (y # ys)"

text \<open>
  Lines 74-77: the message of an outcome child.
  \<^verbatim>\<open>
  type_ = child.get('type')
  message = child.get('message', default='')
  if type_:
      message = '{0}: {1}'.format(type_, message) if message else type_
  \<close>
\<close>

definition NoseRunner_message :: "element \<Rightarrow> string" where
  "NoseRunner_message child =
     (let typ = get child ''type'';
          message = get_default child ''message'' ''''
      in case typ of
           None \<Rightarrow> message
         | Some t \<Rightarrow>
             if t \<noteq> [] then (if message \<noteq> [] then t @ '': '' @ message else t)
             else message)"

text \<open>
  The inner loop \<open>for child in testcase\<close>, lines 70-86, over the variables
  \<open>(category, status, message, extras)\<close>. The parameter \<open>gettext\<close> is the translation
  function \<open>_\<close> of the module. \<open>child.text.rstrip\<close> raises \<open>AttributeError\<close> when the
  text is \<open>None\<close>.
\<close>

fun NoseRunner_children ::
  "(string \<Rightarrow> string) \<Rightarrow> element list \<Rightarrow> Category \<times> string \<times> string \<times> string list
     \<Rightarrow> pyerror + Category \<times> string \<times> string \<times> string list"
where
  "NoseRunner_children gettext [] vars = Inr vars"
| "NoseRunner_children gettext (child # rest) (cat, stat, msg, extras) =
     (if tag child \<in> set [''error'', ''failure'', ''skipped''] then
        NoseRunner_children gettext rest
          (if tag child = ''skipped'' then SKIP else FAIL,
           tag child,
           NoseRunner_message child,
           (case etext child of
              None \<Rightarrow> extras
            | Some t \<Rightarrow> if t \<noteq> [] then extras @ [t] else extras))
      else if tag child \<in> set [''system-out'', ''system-err''] then
        (let heading = (if tag child = ''system-out'' then gettext ''Captured stdout''
                        else gettext ''Captured stderr'')
         in case etext child of
              None \<Rightarrow> Inl AttributeError
            | Some t \<Rightarrow>
                NoseRunner_children gettext rest
                  (cat, stat, msg,
                   extras @ [''----- '' @ heading @ '' -----'' @ [CHR 0x0A] @ rstrip_newline t]))
      else NoseRunner_children gettext rest (cat, stat, msg, extras))"

text \<open>The body of the outer loop, lines 63-90, for one child of the root.\<close>

definition NoseRunner_testcase ::
  "(string \<Rightarrow> string) \<Rightarrow> (string \<Rightarrow> 'f option) \<Rightarrow> element \<Rightarrow> pyerror + 'f TestResult" where
  "NoseRunner_testcase gettext pf testcase =
     (let name = testcase_name testcase in
      case py_float pf (get testcase ''time'') of
        Inl e \<Rightarrow> Inl e
      | Inr tm \<Rightarrow>
          (case NoseRunner_children gettext (children testcase) (OK, ''ok'', '''', []) of
             Inl e \<Rightarrow> Inl e
           | Inr (cat, stat, msg, extras) \<Rightarrow>
               Inr \<lparr>category = cat, status = stat, name = name, message = msg,
                    time = tm, extra_text = py_join [CHR 0x0A, CHR 0x0A] extras\<rparr>))"

fun NoseRunner_loop ::
  "(string \<Rightarrow> string) \<Rightarrow> (string \<Rightarrow> 'f option) \<Rightarrow> element list \<Rightarrow> 'f TestResult list
     \<Rightarrow> pyerror + 'f TestResult list"
where
  "NoseRunner_loop gettext pf [] testresults = Inr testresults"
| "NoseRunner_loop gettext pf (testcase # data) testresults =
     (case NoseRunner_testcase gettext pf testcase of
        Inl e \<Rightarrow> Inl e
      | Inr r \<Rightarrow> NoseRunner_loop gettext pf data (testresults @ [r]))"

definition NoseRunner_load_data ::
  "(string \<Rightarrow> string) \<Rightarrow> (string \<Rightarrow> 'f option) \<Rightarrow> filesystem \<Rightarrow> string
     \<Rightarrow> pyerror + 'f TestResult list" where
  "NoseRunner_load_data gettext pf fs resultfilename =
     (case read_data fs resultfilename of
        Inl e \<Rightarrow> Inl e
      | Inr data \<Rightarrow> NoseRunner_loop gettext pf data [])"

section \<open>The test process of TestRunner (testrunner.py)\<close>

text \<open>
  The process object of the GUI toolkit, as far as the runner uses it: the settings made
  by \<open>start\<close>, the slots connected to its signal \<open>finished\<close>, the command it was started
  with (\<open>None\<close> before \<open>process.start\<close>), its state, whether \<open>kill\<close> was called, and the
  output not yet read.
\<close>

datatype ProcessState = NotRunning | Running

datatype ChannelMode = SeparateChannels | MergedChannels

datatype slot = TestRunner_finished

record QProcess =
  channel_mode :: ChannelMode
  working_directory :: string
  finished_slots :: "slot list"
  process_environment :: "(string \<rightharpoonup> string) option"
  command :: "(string \<times> string list) option"
  pstate :: ProcessState
  kill_called :: bool
  unread_output :: string

definition new_QProcess :: QProcess where
  "new_QProcess =
     \<lparr>channel_mode = SeparateChannels, working_directory = '''', finished_slots = [],
      process_environment = None, command = None, pstate = NotRunning,
      kill_called = False, unread_output = ''''\<rparr>"

record TestConfig =
  framework :: string
  wdir :: string

text \<open>
  What the runner finds on the machine and does not change: \<open>os.name\<close>, the environment
  of the host process, the function \<open>add_pathlist_to_PYTHONPATH\<close> of the IDE (as a function
  from the list and the paths to the new list), whether a command is running when
  \<open>waitForStarted\<close> returns, and which files the runner may delete. The conversion
  \<open>to_text_string\<close> of the environment items is the identity on strings.
\<close>

record host =
  os_name :: string
  system_environment :: "string list"
  add_pathlist_to_PYTHONPATH :: "string list \<Rightarrow> string list \<Rightarrow> string list"
  wait_for_started :: "string \<Rightarrow> string list \<Rightarrow> bool"
  can_remove :: "string \<Rightarrow> bool"

text \<open>
  The runner object with the file system it reads and the notifications it has sent:
  \<open>emitted\<close> lists the arguments of every \<open>sig_finished.emit\<close> so far, oldest first.
\<close>

record 'f runner =
  process :: "QProcess option"
  resultfilename :: string
  files :: filesystem
  emitted :: "('f TestResult list \<times> string) list"

text \<open>\<open>envItem.partition('=')\<close>, name and value.\<close>

definition partition_eq :: "string \<Rightarrow> string \<times> string" where
  "partition_eq envItem =
     (takeWhile (\<lambda>c. c \<noteq> CHR ''='') envItem,
      drop 1 (dropWhile (\<lambda>c. c \<noteq> CHR ''='') envItem))"

text \<open>Lines 123-126: the process environment built from the list of \<open>NAME=value\<close> items.\<close>

fun insert_items :: "string list \<Rightarrow> (string \<rightharpoonup> string) \<Rightarrow> (string \<rightharpoonup> string)" where
  "insert_items [] processEnvironment = processEnvironment"
| "insert_items (envItem # env) processEnvironment =
     (let (envName, envValue) = partition_eq envItem
      in insert_items env (processEnvironment(envName \<mapsto> envValue)))"

text \<open>
  \<open>os.remove(path)\<close>: it raises \<open>OSError\<close> when there is no file at the path or the
  file may not be deleted, and deletes the file otherwise.
\<close>

definition os_remove :: "host \<Rightarrow> string \<Rightarrow> filesystem \<Rightarrow> pyerror + filesystem" where
  "os_remove h path fs =
     (if fs path \<noteq> None \<and> can_remove h path then Inr (fs(path := None))
      else Inl OSError)"

text \<open>
  \<open>TestRunner.start\<close>, lines 109-149. The result is what the call raises or \<open>Inr ()\<close>,
  with the runner after the call. The \<open>OSError\<close> of \<open>os.remove\<close> is caught and ignored
  (lines 141-144), and the file system is then as it was.
\<close>

definition start ::
  "host \<Rightarrow> TestConfig \<Rightarrow> string list option \<Rightarrow> 'f runner \<Rightarrow> (pyerror + unit) \<times> 'f runner" where
  "start h config pythonpath self =
     (let p0 = new_QProcess\<lparr>channel_mode := MergedChannels,
                             working_directory := wdir config,
                             finished_slots := [TestRunner_finished]\<rparr>;
          p1 = (case pythonpath of
                  None \<Rightarrow> p0
                | Some paths \<Rightarrow>
                    p0\<lparr>process_environment :=
                         Some (insert_items
                                 (add_pathlist_to_PYTHONPATH h (system_environment h) paths)
                                 Map.empty)\<rparr>);
          self1 = self\<lparr>process := Some p1\<rparr>
      in case (if framework config = ''nose'' then
                 Inr (''nosetests'', [''--with-xunit'', ''--xunit-file='' @ resultfilename self])
               else if framework config = ''py.test'' then
                 Inr (''py.test'', [''--junit-xml'', resultfilename self])
               else Inl (ValueError ''Unknown framework'')) of
           Inl e \<Rightarrow> (Inl e, self1)
         | Inr (executable0, p_args) \<Rightarrow>
             (let executable = (if os_name h = ''nt'' then executable0 @ ''.exe''
                                else executable0);
                  self2 = self1\<lparr>files :=
                            (case os_remove h (resultfilename self1) (files self1) of
                               Inl e \<Rightarrow> files self1
                             | Inr fs \<Rightarrow> fs)\<rparr>;
                  p2 = p1\<lparr>command := Some (executable, p_args)\<rparr>
              in if wait_for_started h executable p_args then
                   (Inr (), self2\<lparr>process := Some (p2\<lparr>pstate := Running\<rparr>)\<rparr>)
                 else (Inl RuntimeError, self2\<lparr>process := Some p2\<rparr>)))"

text \<open>
  \<open>TestRunner.finished\<close>, lines 157-161: read the output, load the results, emit. An
  exception of \<open>load_data\<close> leaves the slot before the emit.
\<close>

definition finished ::
  "(string \<Rightarrow> 'f option) \<Rightarrow> 'f runner \<Rightarrow> (pyerror + unit) \<times> 'f runner" where
  "finished pf self =
     (case process self of
        None \<Rightarrow> (Inl AttributeError, self)
      | Some p \<Rightarrow>
          (let output = unread_output p;
               self1 = self\<lparr>process := Some (p\<lparr>unread_output := ''''\<rparr>)\<rparr>
           in case TestRunner_load_data pf (files self1) (resultfilename self1) of
                Inl e \<Rightarrow> (Inl e, self1)
              | Inr testresults \<Rightarrow>
                  (Inr (), self1\<lparr>emitted := emitted self1 @ [(testresults, output)]\<rparr>)))"

text \<open>\<open>TestRunner.kill_if_running\<close>, lines 165-166.\<close>

definition kill_if_running :: "'f runner \<Rightarrow> 'f runner" where
  "kill_if_running self =
     (case process self of
        None \<Rightarrow> self
      | Some p \<Rightarrow>
          if pstate p = Running then self\<lparr>process := Some (p\<lparr>kill_called := True\<rparr>)\<rparr>
          else self)"

text \<open>
  The event of the host loop that line 115 subscribes to: the running test process has
  exited, after printing \<open>output\<close> and leaving \<open>written\<close> at the result path (\<open>None\<close>: it
  wrote no file). The process object becomes \<open>NotRunning\<close> and its signal \<open>finished\<close>
  calls the connected slot. With no running process there is no such event, and the
  runner stays as it is.
\<close>

definition process_exited ::
  "(string \<Rightarrow> 'f option) \<Rightarrow> string \<Rightarrow> file_content option \<Rightarrow> 'f runner
     \<Rightarrow> (pyerror + unit) \<times> 'f runner" where
  "process_exited pf output written self =
     (case process self of
        None \<Rightarrow> (Inr (), self)
      | Some p \<Rightarrow>
          if pstate p = Running then
            (let self1 = self\<lparr>process := Some (p\<lparr>pstate := NotRunning,
                                                  unread_output := unread_output p @ output\<rparr>),
                              files := (case written of
                                          None \<Rightarrow> files self
                                        | Some c \<Rightarrow> (files self)(resultfilename self \<mapsto> c))\<rparr>
             in if TestRunner_finished \<in> set (finished_slots p) then finished pf self1
                else (Inr (), self1))
          else (Inr (), self))"

section \<open>Vocabulary of the properties\<close>

text \<open>
  The two kinds of child that noserunner.py tells apart by tag (lines 71 and 80).
\<close>

definition is_outcome :: "element \<Rightarrow> bool" where
  "is_outcome child \<longleftrightarrow> tag child \<in> set [''error'', ''failure'', ''skipped'']"

definition is_stream :: "element \<Rightarrow> bool" where
  "is_stream child \<longleftrightarrow> tag child \<in> set [''system-out'', ''system-err'']"

text \<open>
  The inputs the parsers are specified for. A testcase carries a \<open>time\<close> attribute that
  the builtin \<open>float\<close> accepts. In the dialect read by testrunner.py its children are
  outcome elements only. In the dialect read by noserunner.py it may have any children,
  and those that hold captured output have text content.
\<close>

definition has_time :: "(string \<Rightarrow> 'f option) \<Rightarrow> element \<Rightarrow> bool" where
  "has_time pf testcase \<longleftrightarrow>
     (case get testcase ''time'' of None \<Rightarrow> False | Some s \<Rightarrow> pf s \<noteq> None)"

definition DialectA_testcase :: "(string \<Rightarrow> 'f option) \<Rightarrow> element \<Rightarrow> bool" where
  "DialectA_testcase pf testcase \<longleftrightarrow>
     has_time pf testcase \<and> list_all is_outcome (children testcase)"

definition DialectB_testcase :: "(string \<Rightarrow> 'f option) \<Rightarrow> element \<Rightarrow> bool" where
  "DialectB_testcase pf testcase \<longleftrightarrow>
     has_time pf testcase \<and>
     list_all (\<lambda>child. is_stream child \<longrightarrow> etext child \<noteq> None) (children testcase)"

text \<open>
  The blocks of \<open>extra_text\<close> as the specification describes them, to compare with what
  the loop of noserunner.py collects: an outcome child contributes its text when it has
  some, a captured-output child contributes a heading line followed by its text without
  the trailing newlines, any other child contributes nothing.
\<close>

definition stream_block :: "(string \<Rightarrow> string) \<Rightarrow> element \<Rightarrow> string" where
  "stream_block gettext child =
     ''----- '' @
     (if tag child = ''system-out'' then gettext ''Captured stdout''
      else gettext ''Captured stderr'') @
     '' -----'' @ [CHR 0x0A] @
     rstrip_newline (case etext child of None \<Rightarrow> [] | Some t \<Rightarrow> t)"

definition blocks_of :: "(string \<Rightarrow> string) \<Rightarrow> element \<Rightarrow> string list" where
  "blocks_of gettext child =
     (if is_outcome child then
        (case etext child of None \<Rightarrow> [] | Some t \<Rightarrow> if t = [] then [] else [t])
      else if is_stream child then [stream_block gettext child]
      else [])"

section \<open>Example data\<close>

text \<open>
  Concrete parameters for the examples that follow the theorems: a stand-in for \<open>float\<close>
  that accepts the non-empty strings of digits and dots and returns the literal itself, the
  translation function without a catalogue, and a machine on which every command starts
  and every file may be deleted.
\<close>

definition example_float :: "string \<Rightarrow> string option" where
  "example_float s =
     (if s \<noteq> [] \<and> list_all (\<lambda>c. c \<in> set ''0123456789.'') s then Some s else None)"

definition example_gettext :: "string \<Rightarrow> string" where
  "example_gettext s = s"

definition example_host :: host where
  "example_host =
     \<lparr>os_name = ''posix'', system_environment = [''PATH=/usr/bin''],
      add_pathlist_to_PYTHONPATH = (\<lambda>env paths. env), wait_for_started = (\<lambda>exe args. True),
      can_remove = (\<lambda>path. True)\<rparr>"

definition example_runner :: "string runner" where
  "example_runner =
     \<lparr>process = None, resultfilename = ''unittest.results'', files = Map.empty, emitted = []\<rparr>"

text \<open>
  A result file of py.test with a passing and a failing test, and a result file of nose
  with a skipped test that printed \<open>hello\<close>.
\<close>

definition example_pytest_root :: element where
  "example_pytest_root =
     Element ''testsuite'' [] None
       [Element ''testcase''
          [(''classname'', ''TestA''), (''name'', ''test_one''), (''time'', ''0.01'')] None [],
        Element ''testcase''
          [(''classname'', ''TestA''), (''name'', ''test_two''), (''time'', ''0.02'')] None
          [Element ''failure'' [(''type'', ''ValueError''), (''message'', ''bad'')]
             (Some ''assert 1 == 2'') []]]"

definition example_skipped :: element where
  "example_skipped =
     Element ''skipped'' [(''type'', ''unittest.case.SkipTest''), (''message'', ''later'')]
       (Some ''SkipTest: later'') []"

definition example_system_out :: element where
  "example_system_out = Element ''system-out'' [] (Some ''hello\<newline>'') []"

definition example_nose_testcase :: element where
  "example_nose_testcase =
     Element ''testcase''
       [(''classname'', ''TestB''), (''name'', ''test_skip''), (''time'', ''0.5'')] None
       [example_skipped, example_system_out]"

definition example_nose_root :: element where
  "example_nose_root = Element ''testsuite'' [] None [example_nose_testcase]"

definition example_files :: filesystem where
  "example_files =
     [''pytest.xml'' \<mapsto> Document example_pytest_root,
      ''nose.xml'' \<mapsto> Document example_nose_root]"

text \<open>A testcase whose \<open>time\<close> is not a number, and one whose \<open>time\<close> is \<open>0.023\<close>.\<close>

definition example_bad_time :: element where
  "example_bad_time =
     Element ''testcase''
       [(''classname'', ''TestA''), (''name'', ''test_one''), (''time'', ''abc'')] None []"

definition example_good_time :: element where
  "example_good_time =
     Element ''testcase''
       [(''classname'', ''TestA''), (''name'', ''test_one''), (''time'', ''0.023'')] None []"

text \<open>A failing testcase whose failure has a type and a message.\<close>

definition example_failure :: element where
  "example_failure =
     Element ''failure'' [(''type'', ''AssertionError''), (''message'', ''boom'')]
       (Some ''Traceback'') []"

definition example_failing_testcase :: element where
  "example_failing_testcase =
     Element ''testcase''
       [(''classname'', ''TestA''), (''name'', ''test_two''), (''time'', ''0.02'')] None
       [example_failure]"

text \<open>
  A testcase of nose with an empty captured-output element, and a testcase of py.test
  whose captured output comes before its failure.
\<close>

definition example_empty_stream :: element where
  "example_empty_stream =
     Element ''testcase''
       [(''classname'', ''TestB''), (''name'', ''test_quiet''), (''time'', ''0.1'')] None
       [Element ''system-out'' [] None []]"

definition example_stream_first :: element where
  "example_stream_first =
     Element ''testcase''
       [(''classname'', ''TestA''), (''name'', ''test_two''), (''time'', ''0.02'')] None
       [Element ''system-out'' [] (Some ''hello'') [], example_failure]"

text \<open>A run of py.test in the directory \<open>/proj\<close>.\<close>

definition example_config :: TestConfig where
  "example_config = \<lparr>framework = ''py.test'', wdir = ''/proj''\<rparr>"

section \<open>Auxiliary facts about the loops\<close>

lemma TestRunner_loop_acc:
  "TestRunner_loop pf data acc =
     (case TestRunner_loop pf data [] of Inl e \<Rightarrow> Inl e | Inr rs \<Rightarrow> Inr (acc @ rs))"
proof (induction data arbitrary: acc)
  case Nil
  show ?case by simp
next
  case (Cons tc data)
  show ?case
  proof (cases "TestRunner_testcase pf tc")
    case (Inl e)
    then show ?thesis by simp
  next
    case (Inr r)
    then show ?thesis
      using Cons.IH [where acc = "acc @ [r]"] Cons.IH [where acc = "[r]"]
      by (simp split: sum.splits)
  qed
qed

lemma TestRunner_loop_all:
  "list_all2 (\<lambda>tc r. TestRunner_testcase pf tc = Inr r) data rs
     \<Longrightarrow> TestRunner_loop pf data [] = Inr rs"
proof (induction data rs rule: list_all2_induct)
  case Nil
  show ?case by simp
next
  case (Cons tc data r rs)
  then show ?case
    using TestRunner_loop_acc [where pf = pf and data = data and acc = "[r]"] by simp
qed

lemma TestRunner_loop_first_error:
  "TestRunner_testcase pf tc = Inl e \<Longrightarrow> tc \<in> set data
     \<Longrightarrow> \<exists>e'. TestRunner_loop pf data acc = Inl e'"
proof (induction data arbitrary: acc)
  case Nil
  then show ?case by simp
next
  case (Cons x data)
  then show ?case by (cases "TestRunner_testcase pf x") auto
qed

lemma NoseRunner_loop_acc:
  "NoseRunner_loop g pf data acc =
     (case NoseRunner_loop g pf data [] of Inl e \<Rightarrow> Inl e | Inr rs \<Rightarrow> Inr (acc @ rs))"
proof (induction data arbitrary: acc)
  case Nil
  show ?case by simp
next
  case (Cons tc data)
  show ?case
  proof (cases "NoseRunner_testcase g pf tc")
    case (Inl e)
    then show ?thesis by simp
  next
    case (Inr r)
    then show ?thesis
      using Cons.IH [where acc = "acc @ [r]"] Cons.IH [where acc = "[r]"]
      by (simp split: sum.splits)
  qed
qed

lemma NoseRunner_loop_all:
  "list_all2 (\<lambda>tc r. NoseRunner_testcase g pf tc = Inr r) data rs
     \<Longrightarrow> NoseRunner_loop g pf data [] = Inr rs"
proof (induction data rs rule: list_all2_induct)
  case Nil
  show ?case by simp
next
  case (Cons tc data r rs)
  then show ?case
    using NoseRunner_loop_acc [where pf = pf and g = g and data = data and acc = "[r]"] by simp
qed

lemma NoseRunner_loop_first_error:
  "NoseRunner_testcase g pf tc = Inl e \<Longrightarrow> tc \<in> set data
     \<Longrightarrow> \<exists>e'. NoseRunner_loop g pf data acc = Inl e'"
proof (induction data arbitrary: acc)
  case Nil
  then show ?case by simp
next
  case (Cons x data)
  then show ?case by (cases "NoseRunner_testcase g pf x") auto
qed

lemma has_time_py_float: "has_time pf tc \<Longrightarrow> \<exists>tm. py_float pf (get tc ''time'') = Inr tm"
  by (auto simp: has_time_def py_float_def split: option.splits)

lemma outcome_category: "is_outcome c \<Longrightarrow> \<exists>cat. STATUS_TO_CATEGORY (tag c) = Some cat"
  by (auto simp: is_outcome_def STATUS_TO_CATEGORY_def)

lemma DialectA_testcase_total:
  assumes "DialectA_testcase pf tc"
  shows "\<exists>r. TestRunner_testcase pf tc = Inr r"
proof -
  obtain tm where tm: "py_float pf (get tc ''time'') = Inr tm"
    using assms has_time_py_float by (auto simp: DialectA_testcase_def)
  show ?thesis
  proof (cases "children tc")
    case Nil
    then show ?thesis
      using tm by (simp add: TestRunner_testcase_def STATUS_TO_CATEGORY_def)
  next
    case (Cons c cs)
    then have "is_outcome c"
      using assms by (simp add: DialectA_testcase_def)
    then obtain cat where "STATUS_TO_CATEGORY (tag c) = Some cat"
      using outcome_category by blast
    then show ?thesis
      using tm Cons by (simp add: TestRunner_testcase_def)
  qed
qed

lemma NoseRunner_children_total:
  "list_all (\<lambda>child. is_stream child \<longrightarrow> etext child \<noteq> None) cs
     \<Longrightarrow> \<exists>vars'. NoseRunner_children g cs vars = Inr vars'"
proof (induction cs arbitrary: vars)
  case Nil
  show ?case by (cases vars rule: prod_cases4) simp
next
  case (Cons c cs)
  obtain cat stat msg extras where vars: "vars = (cat, stat, msg, extras)"
    by (cases vars rule: prod_cases4) auto
  show ?case
    using Cons.prems Cons.IH unfolding vars
    by (auto simp: is_stream_def Let_def split: option.splits)
qed

lemma DialectB_testcase_total:
  assumes "DialectB_testcase pf tc"
  shows "\<exists>r. NoseRunner_testcase g pf tc = Inr r"
proof -
  obtain tm where tm: "py_float pf (get tc ''time'') = Inr tm"
    using assms has_time_py_float by (auto simp: DialectB_testcase_def)
  have "list_all (\<lambda>child. is_stream child \<longrightarrow> etext child \<noteq> None) (children tc)"
    using assms by (simp add: DialectB_testcase_def)
  then obtain vars where "NoseRunner_children g (children tc) (OK, ''ok'', '''', []) = Inr vars"
    using NoseRunner_children_total by blast
  then show ?thesis
    using tm by (cases vars rule: prod_cases4) (simp add: NoseRunner_testcase_def)
qed

lemma list_all_total_list_all2:
  "list_all (\<lambda>x. \<exists>y. f x = Inr y) xs \<Longrightarrow> \<exists>ys. list_all2 (\<lambda>x y. f x = Inr y) xs ys"
  by (induction xs) (auto simp: list_all2_Cons1)

lemma TestRunner_testcase_name:
  "TestRunner_testcase pf tc = Inr r \<Longrightarrow> name r = testcase_name tc"
  by (auto simp: TestRunner_testcase_def Let_def split: sum.splits option.splits list.splits prod.splits)

lemma NoseRunner_testcase_name:
  "NoseRunner_testcase g pf tc = Inr r \<Longrightarrow> name r = testcase_name tc"
  by (auto simp: NoseRunner_testcase_def Let_def split: sum.splits option.splits list.splits prod.splits)

lemma list_all2_names:
  "list_all2 (\<lambda>tc r. f tc = Inr r) tcs rs \<Longrightarrow> (\<And>tc r. f tc = Inr r \<Longrightarrow> name r = testcase_name tc)
    \<Longrightarrow> map name rs = map testcase_name tcs"
  by (induction tcs rs rule: list_all2_induct) auto

lemma stream_not_outcome: "is_stream c \<Longrightarrow> \<not> is_outcome c"
  by (auto simp: is_stream_def is_outcome_def)

lemma children_step_outcome:
  "is_outcome c \<Longrightarrow>
   NoseRunner_children g (c # rest) (cat, stat, msg, ex) =
     NoseRunner_children g rest
       (if tag c = ''skipped'' then SKIP else FAIL, tag c, NoseRunner_message c,
        ex @ blocks_of g c)"
  by (simp add: is_outcome_def blocks_of_def split: option.splits)

lemma children_step_stream:
  "is_stream c \<Longrightarrow>
   NoseRunner_children g (c # rest) (cat, stat, msg, ex) =
     (case etext c of
        None \<Rightarrow> Inl AttributeError
      | Some t \<Rightarrow> NoseRunner_children g rest (cat, stat, msg, ex @ blocks_of g c))"
  using stream_not_outcome [of c]
  by (auto simp: is_outcome_def is_stream_def blocks_of_def stream_block_def Let_def
      split: option.splits)

lemma children_step_other:
  "\<not> is_outcome c \<Longrightarrow> \<not> is_stream c \<Longrightarrow>
   NoseRunner_children g (c # rest) (cat, stat, msg, ex) =
     NoseRunner_children g rest (cat, stat, msg, ex @ blocks_of g c)"
  by (simp add: is_outcome_def is_stream_def blocks_of_def)

lemma NoseRunner_children_append:
  "NoseRunner_children g (xs @ ys) vars =
     (case NoseRunner_children g xs vars of
        Inl e \<Rightarrow> Inl e
      | Inr v \<Rightarrow> NoseRunner_children g ys v)"
proof (induction xs arbitrary: vars)
  case Nil
  show ?case by simp
next
  case (Cons x xs)
  obtain cat stat msg ex where vars: "vars = (cat, stat, msg, ex)"
    by (cases vars rule: prod_cases4) auto
  consider "is_outcome x" | "is_stream x" | "\<not> is_outcome x" "\<not> is_stream x"
    by blast
  then show ?case
  proof cases
    case 1
    then show ?thesis
      unfolding vars by (simp add: children_step_outcome Cons.IH del: NoseRunner_children.simps)
  next
    case 2
    then show ?thesis
      unfolding vars
      by (simp add: children_step_stream Cons.IH del: NoseRunner_children.simps
          split: option.splits)
  next
    case 3
    then show ?thesis
      unfolding vars by (simp add: children_step_other Cons.IH del: NoseRunner_children.simps)
  qed
qed

lemma NoseRunner_children_extras:
  "NoseRunner_children g cs (cat, stat, msg, ex) = Inr (cat', stat', msg', ex')
     \<Longrightarrow> ex' = ex @ concat (map (blocks_of g) cs)"
proof (induction cs arbitrary: cat stat msg ex)
  case Nil
  then show ?case by simp
next
  case (Cons c cs)
  consider "is_outcome c" | "is_stream c" | "\<not> is_outcome c" "\<not> is_stream c"
    by blast
  then show ?case
  proof cases
    case 1
    have "NoseRunner_children g cs
            (if tag c = ''skipped'' then SKIP else FAIL, tag c, NoseRunner_message c,
             ex @ blocks_of g c) = Inr (cat', stat', msg', ex')"
      using Cons.prems 1 by (simp add: children_step_outcome del: NoseRunner_children.simps)
    from Cons.IH [OF this] show ?thesis by simp
  next
    case 2
    then have "NoseRunner_children g cs (cat, stat, msg, ex @ blocks_of g c)
                 = Inr (cat', stat', msg', ex')"
      using Cons.prems
      by (simp add: children_step_stream del: NoseRunner_children.simps split: option.splits)
    from Cons.IH [OF this] show ?thesis by simp
  next
    case 3
    then have "NoseRunner_children g cs (cat, stat, msg, ex @ blocks_of g c)
                 = Inr (cat', stat', msg', ex')"
      using Cons.prems by (simp add: children_step_other del: NoseRunner_children.simps)
    from Cons.IH [OF this] show ?thesis by simp
  qed
qed

lemma NoseRunner_children_outcome:
  "NoseRunner_children g cs (cat, stat, msg, ex) = Inr (cat', stat', msg', ex')
     \<Longrightarrow> (cat', stat', msg') =
         (if filter is_outcome cs = [] then (cat, stat, msg)
          else (if tag (last (filter is_outcome cs)) = ''skipped'' then SKIP else FAIL,
                tag (last (filter is_outcome cs)),
                NoseRunner_message (last (filter is_outcome cs))))"
proof (induction cs arbitrary: cat stat msg ex)
  case Nil
  then show ?case by simp
next
  case (Cons c cs)
  consider "is_outcome c" | "is_stream c" | "\<not> is_outcome c" "\<not> is_stream c"
    by blast
  then show ?case
  proof cases
    case 1
    have "NoseRunner_children g cs
            (if tag c = ''skipped'' then SKIP else FAIL, tag c, NoseRunner_message c,
             ex @ blocks_of g c) = Inr (cat', stat', msg', ex')"
      using Cons.prems 1 by (simp add: children_step_outcome del: NoseRunner_children.simps)
    from Cons.IH [OF this] 1 show ?thesis by simp
  next
    case 2
    then have "NoseRunner_children g cs (cat, stat, msg, ex @ blocks_of g c)
                 = Inr (cat', stat', msg', ex')"
      using Cons.prems
      by (simp add: children_step_stream del: NoseRunner_children.simps split: option.splits)
    from Cons.IH [OF this] 2 stream_not_outcome [of c] show ?thesis by simp
  next
    case 3
    then have "NoseRunner_children g cs (cat, stat, msg, ex @ blocks_of g c)
                 = Inr (cat', stat', msg', ex')"
      using Cons.prems by (simp add: children_step_other del: NoseRunner_children.simps)
    from Cons.IH [OF this] 3 show ?thesis by simp
  qed
qed

lemma NoseRunner_children_error:
  "c \<in> set cs \<Longrightarrow> is_stream c \<Longrightarrow> etext c = None
     \<Longrightarrow> NoseRunner_children g cs vars = Inl AttributeError"
proof (induction cs arbitrary: vars)
  case Nil
  then show ?case by simp
next
  case (Cons x cs)
  obtain cat stat msg ex where vars: "vars = (cat, stat, msg, ex)"
    by (cases vars rule: prod_cases4) auto
  show ?case
  proof (cases "x = c")
    case True
    then show ?thesis
      using Cons.prems unfolding vars
      by (simp add: children_step_stream del: NoseRunner_children.simps)
  next
    case False
    then have "c \<in> set cs" using Cons.prems by simp
    then have rec: "\<And>v. NoseRunner_children g cs v = Inl AttributeError"
      using Cons.IH Cons.prems by blast
    consider "is_outcome x" | "is_stream x" | "\<not> is_outcome x" "\<not> is_stream x"
      by blast
    then show ?thesis
    proof cases
      case 1
      then show ?thesis
        unfolding vars by (simp add: children_step_outcome rec del: NoseRunner_children.simps)
    next
      case 2
      then show ?thesis
        unfolding vars
        by (simp add: children_step_stream rec del: NoseRunner_children.simps
            split: option.splits)
    next
      case 3
      then show ?thesis
        unfolding vars by (simp add: children_step_other rec del: NoseRunner_children.simps)
    qed
  qed
qed

lemma py_join_contains:
  "b \<in> set bs \<Longrightarrow> \<exists>pre post. py_join sep bs = pre @ b @ post"
proof (induction sep bs rule: py_join.induct)
  case (1 sep)
  then show ?case by simp
next
  case (2 sep x)
  then have "py_join sep [x] = [] @ b @ []" by simp
  then show ?case by blast
next
  case (3 sep x y ys)
  show ?case
  proof (cases "b = x")
    case True
    then have "py_join sep (x # y # ys) = [] @ b @ (sep @ py_join sep (y # ys))" by simp
    then show ?thesis by blast
  next
    case False
    then have "b \<in> set (y # ys)" using "3.prems" by simp
    then obtain pre post where "py_join sep (y # ys) = pre @ b @ post"
      using "3.IH" by blast
    then have "py_join sep (x # y # ys) = (x @ sep @ pre) @ b @ post" by simp
    then show ?thesis by blast
  qed
qed

lemma TestRunner_load_data_records:
  assumes "fs path = Some (Document root)"
      and "list_all (DialectA_testcase pf) (children root)"
  shows "\<exists>rs. TestRunner_load_data pf fs path = Inr rs \<and>
              list_all2 (\<lambda>tc r. TestRunner_testcase pf tc = Inr r) (children root) rs"
proof -
  have "list_all (\<lambda>tc. \<exists>r. TestRunner_testcase pf tc = Inr r) (children root)"
    using assms(2) DialectA_testcase_total by (auto simp: list_all_iff)
  then obtain rs
    where rs: "list_all2 (\<lambda>tc r. TestRunner_testcase pf tc = Inr r) (children root) rs"
    using list_all_total_list_all2 by blast
  have "TestRunner_load_data pf fs path = Inr rs"
    using assms(1) TestRunner_loop_all [OF rs]
    by (simp add: TestRunner_load_data_def read_data_def etree_parse_def)
  then show ?thesis using rs by blast
qed

lemma NoseRunner_load_data_records:
  assumes "fs path = Some (Document root)"
      and "list_all (DialectB_testcase pf) (children root)"
  shows "\<exists>rs. NoseRunner_load_data g pf fs path = Inr rs \<and>
              list_all2 (\<lambda>tc r. NoseRunner_testcase g pf tc = Inr r) (children root) rs"
proof -
  have "list_all (\<lambda>tc. \<exists>r. NoseRunner_testcase g pf tc = Inr r) (children root)"
    using assms(2) DialectB_testcase_total [where g = g and pf = pf]
    by (auto simp: list_all_iff)
  then obtain rs
    where rs: "list_all2 (\<lambda>tc r. NoseRunner_testcase g pf tc = Inr r) (children root) rs"
    using list_all_total_list_all2 by blast
  have "NoseRunner_load_data g pf fs path = Inr rs"
    using assms(1) NoseRunner_loop_all [OF rs]
    by (simp add: NoseRunner_load_data_def read_data_def etree_parse_def)
  then show ?thesis using rs by blast
qed

lemma example_pytest_file:
  "example_files ''pytest.xml'' = Some (Document example_pytest_root)"
  by (simp add: example_files_def)

lemma example_nose_file:
  "example_files ''nose.xml'' = Some (Document example_nose_root)"
  by (simp add: example_files_def)

lemma example_pytest_wellformed:
  "list_all (DialectA_testcase example_float) (children example_pytest_root)"
  by (simp add: example_pytest_root_def DialectA_testcase_def has_time_def get_def
      example_float_def is_outcome_def)

lemma example_nose_wellformed:
  "list_all (DialectB_testcase example_float) (children example_nose_root)"
  by (simp add: example_nose_root_def example_nose_testcase_def example_skipped_def
      example_system_out_def DialectB_testcase_def has_time_def get_def example_float_def
      is_stream_def)

lemma TestRunner_testcase_no_children:
  "TestRunner_testcase pf tc = Inr r \<Longrightarrow> children tc = [] \<Longrightarrow>
     category r = OK \<and> status r = ''ok'' \<and> message r = '''' \<and> extra_text r = ''''"
  by (auto simp: TestRunner_testcase_def STATUS_TO_CATEGORY_def split: sum.splits)

lemma TestRunner_testcase_time:
  assumes "TestRunner_testcase pf tc = Inr r"
  shows "py_float pf (get tc ''time'') = Inr (time r)"
proof (cases "py_float pf (get tc ''time'')")
  case (Inl e)
  then show ?thesis using assms by (simp add: TestRunner_testcase_def)
next
  case (Inr tm)
  then have "time r = tm"
    using assms
    by (auto simp: TestRunner_testcase_def Let_def split: option.splits list.splits)
  then show ?thesis using Inr by simp
qed

lemma NoseRunner_testcase_time:
  assumes "NoseRunner_testcase g pf tc = Inr r"
  shows "py_float pf (get tc ''time'') = Inr (time r)"
proof (cases "py_float pf (get tc ''time'')")
  case (Inl e)
  then show ?thesis using assms by (simp add: NoseRunner_testcase_def)
next
  case (Inr tm)
  then have "time r = tm"
    using assms
    by (auto simp: NoseRunner_testcase_def Let_def split: sum.splits)
  then show ?thesis using Inr by simp
qed

lemma py_float_Inr: "py_float pf v = Inr x \<Longrightarrow> \<exists>s. v = Some s \<and> pf s = Some x"
  by (auto simp: py_float_def split: option.splits)

lemma py_float_ValueError:
  "pf s = None \<Longrightarrow>
     py_float pf (Some s) = Inl (ValueError (''could not convert string to float: '' @ s))"
  by (simp add: py_float_def)

lemma TestRunner_testcase_first_child:
  assumes "children tc = c # cs" and "py_float pf (get tc ''time'') = Inr tm"
  shows "TestRunner_testcase pf tc =
           (case STATUS_TO_CATEGORY (tag c) of
              None \<Rightarrow> Inl (KeyError (tag c))
            | Some cat \<Rightarrow>
                Inr \<lparr>category = cat, status = tag c, name = testcase_name tc,
                     message = TestRunner_message c, time = tm,
                     extra_text = (case etext c of None \<Rightarrow> '''' | Some t \<Rightarrow> t)\<rparr>)"
  using assms by (simp add: TestRunner_testcase_def)

lemma NoseRunner_testcase_Inr:
  assumes "NoseRunner_testcase g pf tc = Inr r"
  shows "\<exists>cat stat msg ex.
           NoseRunner_children g (children tc) (OK, ''ok'', '''', []) = Inr (cat, stat, msg, ex) \<and>
           category r = cat \<and> status r = stat \<and> message r = msg \<and>
           extra_text r = py_join [CHR 0x0A, CHR 0x0A] ex"
proof (cases "py_float pf (get tc ''time'')")
  case (Inl e)
  then show ?thesis using assms by (simp add: NoseRunner_testcase_def)
next
  case tm: (Inr tm)
  show ?thesis
  proof (cases "NoseRunner_children g (children tc) (OK, ''ok'', '''', [])")
    case (Inl e)
    then show ?thesis using assms tm by (simp add: NoseRunner_testcase_def)
  next
    case (Inr vars)
    obtain cat stat msg ex where vars: "vars = (cat, stat, msg, ex)"
      by (cases vars rule: prod_cases4) auto
    have "r = \<lparr>category = cat, status = stat, name = testcase_name tc, message = msg,
               time = tm, extra_text = py_join [CHR 0x0A, CHR 0x0A] ex\<rparr>"
      using assms tm Inr unfolding vars by (simp add: NoseRunner_testcase_def)
    then show ?thesis using Inr unfolding vars by simp
  qed
qed

lemma TestRunner_message_typed:
  assumes "get c ''type'' = Some t" and "t \<noteq> []"
  shows "TestRunner_message c =
           (case get c ''message'' of
              None \<Rightarrow> t
            | Some m \<Rightarrow> if m = [] then t else t @ '': '' @ m)"
  using assms by (simp add: TestRunner_message_def get_default_def split: option.splits)

lemma NoseRunner_message_typed:
  assumes "get c ''type'' = Some t" and "t \<noteq> []"
  shows "NoseRunner_message c =
           (case get c ''message'' of
              None \<Rightarrow> t
            | Some m \<Rightarrow> if m = [] then t else t @ '': '' @ m)"
  using assms by (simp add: NoseRunner_message_def get_default_def split: option.splits)

lemma last_outcome:
  assumes "is_outcome c" and "list_all (\<lambda>d. \<not> is_outcome d) post"
  shows "filter is_outcome (pre @ c # post) \<noteq> [] \<and>
         last (filter is_outcome (pre @ c # post)) = c"
proof -
  have "filter is_outcome post = []"
    using assms(2) by (induction post) auto
  then show ?thesis using assms(1) by simp
qed

lemma hello_block:
  assumes "tag so = ''system-out''" and "etext so = Some ''hello\<newline>''"
  shows "blocks_of g so = [''----- '' @ g ''Captured stdout'' @ '' -----\<newline>hello'']"
  using assms
  by (simp add: blocks_of_def is_outcome_def is_stream_def stream_block_def rstrip_newline_def)

lemma not_in_table:
  "tg \<notin> set [''ok'', ''error'', ''failure'', ''skipped''] \<Longrightarrow> STATUS_TO_CATEGORY tg = None"
  by (simp add: STATUS_TO_CATEGORY_def)

section \<open>Auxiliary facts about the test process\<close>

lemma start_unknown:
  assumes "framework config \<noteq> ''nose''" and "framework config \<noteq> ''py.test''"
  shows "start h config pythonpath self =
           (Inl (ValueError ''Unknown framework''),
            self\<lparr>process := Some
              (case pythonpath of
                 None \<Rightarrow> new_QProcess\<lparr>channel_mode := MergedChannels,
                             working_directory := wdir config,
                             finished_slots := [TestRunner_finished]\<rparr>
               | Some paths \<Rightarrow> new_QProcess\<lparr>channel_mode := MergedChannels,
                             working_directory := wdir config,
                             finished_slots := [TestRunner_finished],
                             process_environment :=
                               Some (insert_items
                                 (add_pathlist_to_PYTHONPATH h (system_environment h) paths)
                                 Map.empty)\<rparr>)\<rparr>)"
  using assms by (simp add: start_def Let_def split: option.splits)

lemma start_succeeded:
  assumes "start h config pythonpath self0 = (Inr (), self)"
  shows "\<exists>p. process self = Some p \<and> pstate p = Running \<and>
             finished_slots p = [TestRunner_finished] \<and> unread_output p = [] \<and>
             emitted self = emitted self0 \<and> resultfilename self = resultfilename self0 \<and>
             files self =
               (case os_remove h (resultfilename self0) (files self0) of
                  Inl e \<Rightarrow> files self0
                | Inr fs \<Rightarrow> fs)"
proof -
  consider "framework config = ''nose''" | "framework config = ''py.test''"
    | "framework config \<noteq> ''nose''" "framework config \<noteq> ''py.test''"
    by blast
  then show ?thesis
  proof cases
    case 1
    then show ?thesis
      using assms
      by (cases pythonpath)
         (auto simp: start_def Let_def new_QProcess_def split: if_splits sum.splits)
  next
    case 2
    then show ?thesis
      using assms
      by (cases pythonpath)
         (auto simp: start_def Let_def new_QProcess_def split: if_splits sum.splits)
  next
    case 3
    then show ?thesis
      using assms start_unknown [OF 3, of h pythonpath self0] by simp
  qed
qed

lemma kill_running:
  assumes "process self = Some p" and "pstate p = Running"
  shows "kill_if_running self = self\<lparr>process := Some (p\<lparr>kill_called := True\<rparr>)\<rparr>"
  using assms by (simp add: kill_if_running_def)

lemma exit_after_kill:
  assumes "process self = Some p" and "pstate p = Running"
      and "finished_slots p = [TestRunner_finished]"
      and "TestRunner_load_data pf
             (case written of None \<Rightarrow> files self
              | Some c \<Rightarrow> (files self)(resultfilename self \<mapsto> c))
             (resultfilename self) = Inr results"
  shows "fst (process_exited pf out written (kill_if_running self)) = Inr () \<and>
         emitted (snd (process_exited pf out written (kill_if_running self)))
           = emitted self @ [(results, unread_output p @ out)]"
  using assms(3,4) unfolding kill_running [OF assms(1,2)]
  by (cases written) (simp_all add: process_exited_def finished_def assms(2) Let_def)

section \<open>The result file is missing\<close>

text \<open>
  C1. When the result file does not exist or cannot be opened, \<open>load_data\<close> of both
  modules returns the empty list of results and raises nothing.
\<close>

theorem load_data_missing_file:
  "fs path = None \<or> fs path = Some Unreadable \<Longrightarrow>
     TestRunner_load_data pf fs path = Inr [] \<and>
     NoseRunner_load_data gettext pf fs path = Inr []"
  by (auto simp: TestRunner_load_data_def NoseRunner_load_data_def read_data_def
      etree_parse_def)

theorem load_data_missing_file_witness:
  "files example_runner (resultfilename example_runner) = None \<and>
   TestRunner_load_data example_float (files example_runner) (resultfilename example_runner)
     = Inr [] \<and>
   NoseRunner_load_data example_gettext example_float (files example_runner)
     (resultfilename example_runner) = Inr []"
  using load_data_missing_file [of "files example_runner" "resultfilename example_runner"
      example_float example_gettext]
  by (simp add: example_runner_def)

section \<open>Killing the test process\<close>

text \<open>
  C2, as amended. The runner has no cancelled state and nothing that suppresses the
  notification. After a successful \<open>start\<close> the process is running;
  \<open>kill_if_running\<close> calls \<open>kill\<close> on it and changes nothing else of the runner. When the
  process then exits and its signal \<open>finished\<close> calls the slot connected at line 115,
  \<open>sig_finished\<close> is emitted as after any other exit: with the empty list of results when
  the process left no result file, and otherwise with whatever \<open>load_data\<close> reads from
  the file, unless \<open>load_data\<close> raises. The counterexample runs \<open>start\<close>,
  \<open>kill_if_running\<close> and the exit of the process, and finds one notification emitted.
\<close>

theorem kill_does_not_suppress_finished:
  assumes "start h config pythonpath self0 = (Inr (), self)"
  shows "(\<exists>p. process self = Some p \<and> pstate p = Running \<and>
              kill_if_running self = self\<lparr>process := Some (p\<lparr>kill_called := True\<rparr>)\<rparr>) \<and>
         (\<forall>written results.
            TestRunner_load_data pf
              (case written of
                 None \<Rightarrow> files self
               | Some c \<Rightarrow> (files self)(resultfilename self \<mapsto> c))
              (resultfilename self) = Inr results \<longrightarrow>
            fst (process_exited pf out written (kill_if_running self)) = Inr () \<and>
            emitted (snd (process_exited pf out written (kill_if_running self)))
              = emitted self0 @ [(results, out)]) \<and>
         (files self (resultfilename self) = None \<longrightarrow>
            fst (process_exited pf out None (kill_if_running self)) = Inr () \<and>
            emitted (snd (process_exited pf out None (kill_if_running self)))
              = emitted self0 @ [([], out)])"
proof -
  obtain p where p: "process self = Some p" "pstate p = Running"
      "finished_slots p = [TestRunner_finished]" "unread_output p = []"
    and same: "emitted self = emitted self0"
    using start_succeeded [OF assms] by auto
  have a: "\<exists>p. process self = Some p \<and> pstate p = Running \<and>
              kill_if_running self = self\<lparr>process := Some (p\<lparr>kill_called := True\<rparr>)\<rparr>"
    using p kill_running [OF p(1,2)] by simp
  have b: "fst (process_exited pf out written (kill_if_running self)) = Inr () \<and>
           emitted (snd (process_exited pf out written (kill_if_running self)))
             = emitted self0 @ [(results, out)]"
    if "TestRunner_load_data pf
          (case written of
             None \<Rightarrow> files self
           | Some c \<Rightarrow> (files self)(resultfilename self \<mapsto> c))
          (resultfilename self) = Inr results"
    for written results
    using exit_after_kill [OF p(1,2,3) that, of out] p(4) same by simp
  have c: "fst (process_exited pf out None (kill_if_running self)) = Inr () \<and>
           emitted (snd (process_exited pf out None (kill_if_running self)))
             = emitted self0 @ [([], out)]"
    if missing: "files self (resultfilename self) = None"
  proof -
    have "TestRunner_load_data pf
            (case None :: file_content option of
               None \<Rightarrow> files self
             | Some c \<Rightarrow> (files self)(resultfilename self \<mapsto> c))
            (resultfilename self) = Inr []"
      using missing by (simp add: TestRunner_load_data_def read_data_def etree_parse_def)
    then show ?thesis by (rule b)
  qed
  show ?thesis using a b c by simp
qed

theorem kill_does_not_suppress_finished_witness:
  "files (snd (start example_host example_config None example_runner))
     (resultfilename (snd (start example_host example_config None example_runner))) = None \<and>
   emitted (snd (process_exited example_float ''1 failed'' None
       (kill_if_running (snd (start example_host example_config None example_runner)))))
     = [([], ''1 failed'')]"
proof -
  have a: "start example_host example_config None example_runner
             = (Inr (), snd (start example_host example_config None example_runner))"
    by (simp add: start_def example_host_def example_config_def Let_def)
  have b: "files (snd (start example_host example_config None example_runner))
     (resultfilename (snd (start example_host example_config None example_runner))) = None"
    by (simp add: start_def example_host_def example_config_def example_runner_def Let_def
        os_remove_def)
  show ?thesis
    using kill_does_not_suppress_finished [OF a, of example_float "''1 failed''"] b
    by (simp add: example_runner_def)
qed

theorem kill_then_exit_counterexample:
  "fst (start example_host example_config None example_runner) = Inr () \<and>
   map_option pstate (process (snd (start example_host example_config None example_runner)))
     = Some Running \<and>
   map_option kill_called
     (process (kill_if_running (snd (start example_host example_config None example_runner))))
     = Some True \<and>
   emitted (snd (process_exited example_float ''1 failed'' None
       (kill_if_running (snd (start example_host example_config None example_runner)))))
     = [([], ''1 failed'')]"
  by (simp add: start_def example_host_def example_config_def example_runner_def Let_def
      new_QProcess_def os_remove_def kill_if_running_def process_exited_def finished_def
      TestRunner_load_data_def read_data_def etree_parse_def)

section \<open>The time attribute\<close>

text \<open>
  C3. In both modules the \<open>time\<close> of a result is \<open>float\<close> of the testcase's \<open>time\<close>
  attribute: whenever a result is built, the attribute is present, \<open>float\<close> accepts it
  and the result holds the float it returns. When \<open>float\<close> rejects the attribute, the
  record is not built with any default: the error of \<open>float\<close> (a \<open>ValueError\<close>, the parse
  error of the result file) leaves the loop body, and \<open>load_data\<close> of a file that
  contains such a testcase returns no list at all.
\<close>

theorem time_attribute_parsed:
  "(TestRunner_testcase pf tc = Inr r \<longrightarrow>
      (\<exists>s. get tc ''time'' = Some s \<and> pf s = Some (time r))) \<and>
   (NoseRunner_testcase gettext pf tc = Inr r \<longrightarrow>
      (\<exists>s. get tc ''time'' = Some s \<and> pf s = Some (time r))) \<and>
   (get tc ''time'' = Some s \<and> pf s = None \<longrightarrow>
      TestRunner_testcase pf tc
        = Inl (ValueError (''could not convert string to float: '' @ s)) \<and>
      NoseRunner_testcase gettext pf tc
        = Inl (ValueError (''could not convert string to float: '' @ s)) \<and>
      (\<forall>fs path root. fs path = Some (Document root) \<and> tc \<in> set (children root) \<longrightarrow>
         (\<exists>e. TestRunner_load_data pf fs path = Inl e) \<and>
         (\<exists>e. NoseRunner_load_data gettext pf fs path = Inl e)))"
proof (intro conjI impI)
  assume "TestRunner_testcase pf tc = Inr r"
  then have "py_float pf (get tc ''time'') = Inr (time r)"
    by (rule TestRunner_testcase_time)
  then show "\<exists>s. get tc ''time'' = Some s \<and> pf s = Some (time r)"
    by (rule py_float_Inr)
next
  assume "NoseRunner_testcase gettext pf tc = Inr r"
  then have "py_float pf (get tc ''time'') = Inr (time r)"
    by (rule NoseRunner_testcase_time)
  then show "\<exists>s. get tc ''time'' = Some s \<and> pf s = Some (time r)"
    by (rule py_float_Inr)
next
  assume bad: "get tc ''time'' = Some s \<and> pf s = None"
  then show a: "TestRunner_testcase pf tc
                 = Inl (ValueError (''could not convert string to float: '' @ s))"
    by (simp add: TestRunner_testcase_def py_float_ValueError)
  from bad show b: "NoseRunner_testcase gettext pf tc
                 = Inl (ValueError (''could not convert string to float: '' @ s))"
    by (simp add: NoseRunner_testcase_def py_float_ValueError)
  show "\<forall>fs path root. fs path = Some (Document root) \<and> tc \<in> set (children root) \<longrightarrow>
         (\<exists>e. TestRunner_load_data pf fs path = Inl e) \<and>
         (\<exists>e. NoseRunner_load_data gettext pf fs path = Inl e)"
  proof (intro allI impI conjI)
    fix fs :: filesystem and path root
    assume h: "fs path = Some (Document root) \<and> tc \<in> set (children root)"
    then have rd: "read_data fs path = Inr (children root)"
      by (simp add: read_data_def etree_parse_def)
    have mem: "tc \<in> set (children root)" using h by simp
    show "\<exists>e. TestRunner_load_data pf fs path = Inl e"
      using TestRunner_loop_first_error [OF a mem, where acc = "[]"] rd
      by (simp add: TestRunner_load_data_def)
    show "\<exists>e. NoseRunner_load_data gettext pf fs path = Inl e"
      using NoseRunner_loop_first_error [OF b mem, where acc = "[]"] rd
      by (simp add: NoseRunner_load_data_def)
  qed
qed

theorem time_attribute_parsed_witness:
  "TestRunner_testcase example_float example_bad_time
     = Inl (ValueError ''could not convert string to float: abc'') \<and>
   NoseRunner_testcase example_gettext example_float example_bad_time
     = Inl (ValueError ''could not convert string to float: abc'') \<and>
   (\<exists>r. TestRunner_testcase example_float example_good_time = Inr r \<and> time r = ''0.023'') \<and>
   (\<exists>r. NoseRunner_testcase example_gettext example_float example_good_time = Inr r \<and>
        time r = ''0.023'')"
proof -
  have bad: "get example_bad_time ''time'' = Some ''abc'' \<and> example_float ''abc'' = None"
    by (simp add: example_bad_time_def get_def example_float_def)
  have good: "get example_good_time ''time'' = Some ''0.023''"
             "example_float ''0.023'' = Some ''0.023''"
    by (simp_all add: example_good_time_def get_def example_float_def)
  obtain ra where ra: "TestRunner_testcase example_float example_good_time = Inr ra"
    using good
    by (simp add: TestRunner_testcase_def py_float_def example_good_time_def
        STATUS_TO_CATEGORY_def)
  obtain rb
    where rb: "NoseRunner_testcase example_gettext example_float example_good_time = Inr rb"
    using good
    by (simp add: NoseRunner_testcase_def py_float_def example_good_time_def)
  have "\<exists>s. get example_good_time ''time'' = Some s \<and> example_float s = Some (time ra)"
    using time_attribute_parsed [where pf = example_float and tc = example_good_time
        and r = ra and gettext = example_gettext and s = "''abc''"] ra
    by simp
  then have ta: "time ra = ''0.023''"
    using good by auto
  have "\<exists>s. get example_good_time ''time'' = Some s \<and> example_float s = Some (time rb)"
    using time_attribute_parsed [where pf = example_float and tc = example_good_time
        and r = rb and gettext = example_gettext and s = "''abc''"] rb
    by simp
  then have tb: "time rb = ''0.023''"
    using good by auto
  have "TestRunner_testcase example_float example_bad_time
          = Inl (ValueError (''could not convert string to float: '' @ ''abc'')) \<and>
        NoseRunner_testcase example_gettext example_float example_bad_time
          = Inl (ValueError (''could not convert string to float: '' @ ''abc''))"
    using time_attribute_parsed [where pf = example_float and tc = example_bad_time
        and r = ra and gettext = example_gettext and s = "''abc''"] bad
    by simp
  then show ?thesis
    using ra rb ta tb by simp
qed

section \<open>A testcase without children\<close>

text \<open>
  C4. For a well-formed result file of the dialect read by testrunner.py, every testcase
  with no child elements yields a result with category \<open>OK\<close>, status \<open>ok\<close>, an empty
  message and an empty \<open>extra_text\<close>.
\<close>

theorem testcase_without_children:
  assumes "fs path = Some (Document root)"
      and "list_all (DialectA_testcase pf) (children root)"
  shows "\<exists>rs. TestRunner_load_data pf fs path = Inr rs \<and>
              length rs = length (children root) \<and>
              (\<forall>i<length rs. children (children root ! i) = [] \<longrightarrow>
                   category (rs ! i) = OK \<and> status (rs ! i) = ''ok'' \<and>
                   message (rs ! i) = '''' \<and> extra_text (rs ! i) = '''')"
proof -
  obtain rs
    where load: "TestRunner_load_data pf fs path = Inr rs"
      and rs: "list_all2 (\<lambda>tc r. TestRunner_testcase pf tc = Inr r) (children root) rs"
    using TestRunner_load_data_records [where fs = fs and path = path, OF assms] by blast
  have len: "length rs = length (children root)"
    using rs by (simp add: list_all2_lengthD)
  have "\<forall>i<length rs. children (children root ! i) = [] \<longrightarrow>
          category (rs ! i) = OK \<and> status (rs ! i) = ''ok'' \<and>
          message (rs ! i) = '''' \<and> extra_text (rs ! i) = ''''"
  proof (intro allI impI)
    fix i
    assume i: "i < length rs" and none: "children (children root ! i) = []"
    have "TestRunner_testcase pf (children root ! i) = Inr (rs ! i)"
      using list_all2_nthD2 [OF rs i] .
    then show "category (rs ! i) = OK \<and> status (rs ! i) = ''ok'' \<and>
               message (rs ! i) = '''' \<and> extra_text (rs ! i) = ''''"
      using none by (rule TestRunner_testcase_no_children)
  qed
  then show ?thesis using load len by blast
qed

theorem testcase_without_children_witness:
  "\<exists>rs. TestRunner_load_data example_float example_files ''pytest.xml'' = Inr rs \<and>
        length rs = 2 \<and>
        category (rs ! 0) = OK \<and> status (rs ! 0) = ''ok'' \<and>
        message (rs ! 0) = '''' \<and> extra_text (rs ! 0) = ''''"
proof -
  have c: "length (children example_pytest_root) = 2"
          "children (children example_pytest_root ! 0) = []"
    by (simp_all add: example_pytest_root_def)
  show ?thesis
    using testcase_without_children [where fs = example_files and path = "''pytest.xml''",
        OF example_pytest_file example_pytest_wellformed] c
    by force
qed

section \<open>The message of a result\<close>

text \<open>
  C5. Let \<open>c\<close> be the outcome child that decides the result: the first child of the
  testcase in testrunner.py, the last outcome child in noserunner.py (the only one when
  there is one). When \<open>c\<close> has a type (a non-empty \<open>type\<close> attribute, as the code tests its
  truth value), the message of the result is the type alone if the \<open>message\<close> attribute is
  absent or empty, and \<open>type: message\<close> otherwise. In particular the type
  \<open>AssertionError\<close> with the message \<open>boom\<close> gives \<open>AssertionError: boom\<close>.
\<close>

theorem message_format:
  assumes "is_outcome c" and "get c ''type'' = Some t" and "t \<noteq> []"
  shows "(children tc = c # cs \<and> has_time pf tc \<longrightarrow>
            (\<exists>r. TestRunner_testcase pf tc = Inr r \<and>
                 message r = (case get c ''message'' of
                                None \<Rightarrow> t
                              | Some m \<Rightarrow> if m = [] then t else t @ '': '' @ m))) \<and>
         (children tc = pre @ c # post \<and> list_all (\<lambda>d. \<not> is_outcome d) post \<and>
          DialectB_testcase pf tc \<longrightarrow>
            (\<exists>r. NoseRunner_testcase gettext pf tc = Inr r \<and>
                 message r = (case get c ''message'' of
                                None \<Rightarrow> t
                              | Some m \<Rightarrow> if m = [] then t else t @ '': '' @ m))) \<and>
         (t = ''AssertionError'' \<and> get c ''message'' = Some ''boom'' \<longrightarrow>
            TestRunner_message c = ''AssertionError: boom'' \<and>
            NoseRunner_message c = ''AssertionError: boom'')"
proof (intro conjI impI)
  assume h: "children tc = c # cs \<and> has_time pf tc"
  then obtain tm where tm: "py_float pf (get tc ''time'') = Inr tm"
    using has_time_py_float [of pf tc] by auto
  obtain cat where cat: "STATUS_TO_CATEGORY (tag c) = Some cat"
    using outcome_category [OF assms(1)] by auto
  have "TestRunner_testcase pf tc =
          Inr \<lparr>category = cat, status = tag c, name = testcase_name tc,
               message = TestRunner_message c, time = tm,
               extra_text = (case etext c of None \<Rightarrow> '''' | Some t \<Rightarrow> t)\<rparr>"
    using TestRunner_testcase_first_child [of tc c cs pf tm] h tm cat by simp
  then show "\<exists>r. TestRunner_testcase pf tc = Inr r \<and>
                 message r = (case get c ''message'' of
                                None \<Rightarrow> t
                              | Some m \<Rightarrow> if m = [] then t else t @ '': '' @ m)"
    using TestRunner_message_typed [OF assms(2,3)] by simp
next
  assume h: "children tc = pre @ c # post \<and> list_all (\<lambda>d. \<not> is_outcome d) post \<and>
             DialectB_testcase pf tc"
  then obtain r where r: "NoseRunner_testcase gettext pf tc = Inr r"
    using DialectB_testcase_total [of pf tc gettext] by auto
  obtain cat stat msg ex
    where loop: "NoseRunner_children gettext (children tc) (OK, ''ok'', '''', [])
                   = Inr (cat, stat, msg, ex)"
      and msg: "message r = msg"
    using NoseRunner_testcase_Inr [OF r] by auto
  have "filter is_outcome (children tc) \<noteq> [] \<and> last (filter is_outcome (children tc)) = c"
    using last_outcome [OF assms(1), of post pre] h by simp
  then have "msg = NoseRunner_message c"
    using NoseRunner_children_outcome [OF loop] by simp
  then show "\<exists>r. NoseRunner_testcase gettext pf tc = Inr r \<and>
                 message r = (case get c ''message'' of
                                None \<Rightarrow> t
                              | Some m \<Rightarrow> if m = [] then t else t @ '': '' @ m)"
    using r msg NoseRunner_message_typed [OF assms(2,3)] by simp
next
  assume h: "t = ''AssertionError'' \<and> get c ''message'' = Some ''boom''"
  show "TestRunner_message c = ''AssertionError: boom''"
    using TestRunner_message_typed [OF assms(2,3)] h by simp
  show "NoseRunner_message c = ''AssertionError: boom''"
    using NoseRunner_message_typed [OF assms(2,3)] h by simp
qed

theorem message_format_witness:
  "(\<exists>r. TestRunner_testcase example_float example_failing_testcase = Inr r \<and>
        message r = ''AssertionError: boom'') \<and>
   (\<exists>r. NoseRunner_testcase example_gettext example_float example_failing_testcase = Inr r \<and>
        message r = ''AssertionError: boom'')"
proof -
  have a: "is_outcome example_failure"
    by (simp add: is_outcome_def example_failure_def)
  have b: "get example_failure ''type'' = Some ''AssertionError''"
          "get example_failure ''message'' = Some ''boom''"
    by (simp_all add: get_def example_failure_def)
  have c: "''AssertionError'' \<noteq> []" by simp
  have d: "children example_failing_testcase = example_failure # []"
          "children example_failing_testcase = [] @ example_failure # []"
    by (simp_all add: example_failing_testcase_def)
  have e: "has_time example_float example_failing_testcase"
    by (simp add: has_time_def get_def example_failing_testcase_def example_float_def)
  have f: "DialectB_testcase example_float example_failing_testcase"
    using e a by (simp add: DialectB_testcase_def example_failing_testcase_def
        example_failure_def is_stream_def)
  have g: "list_all (\<lambda>d. \<not> is_outcome d) []" by simp
  show ?thesis
    using message_format [OF a b(1) c, where tc = example_failing_testcase and cs = "[]"
        and pre = "[]" and post = "[]" and pf = example_float and gettext = example_gettext]
      b(2) d e f g
    by simp
qed

section \<open>Captured output in the results of nose\<close>

text \<open>
  C6. For a well-formed testcase of the dialect read by noserunner.py, \<open>extra_text\<close> is the
  list of blocks of its children, in document order, joined by a blank line: the text of
  an outcome child, and for each \<open>system-out\<close> or \<open>system-err\<close> child a heading line
  followed by its text without trailing newlines. When the only outcome child is
  \<open>skipped\<close> and a \<open>system-out\<close> child has the text \<open>hello\<close> followed by a newline, the
  category is \<open>SKIP\<close> and \<open>extra_text\<close> contains the stdout heading line followed by
  \<open>hello\<close>.
\<close>

theorem captured_output_blocks:
  assumes "DialectB_testcase pf tc"
  shows "\<exists>r. NoseRunner_testcase gettext pf tc = Inr r \<and>
             extra_text r =
               py_join [CHR 0x0A, CHR 0x0A] (concat (map (blocks_of gettext) (children tc))) \<and>
             (\<forall>sk so. filter is_outcome (children tc) = [sk] \<and> tag sk = ''skipped'' \<and>
                      so \<in> set (children tc) \<and> tag so = ''system-out'' \<and>
                      etext so = Some ''hello\<newline>'' \<longrightarrow>
                 category r = SKIP \<and>
                 (\<exists>pre post. extra_text r =
                    pre @ (''----- '' @ gettext ''Captured stdout'' @ '' -----\<newline>hello'')
                      @ post))"
proof -
  obtain r where r: "NoseRunner_testcase gettext pf tc = Inr r"
    using DialectB_testcase_total [OF assms, of gettext] by auto
  obtain cat stat msg ex
    where loop: "NoseRunner_children gettext (children tc) (OK, ''ok'', '''', [])
                   = Inr (cat, stat, msg, ex)"
      and cat: "category r = cat"
      and extra: "extra_text r = py_join [CHR 0x0A, CHR 0x0A] ex"
    using NoseRunner_testcase_Inr [OF r] by auto
  have ex: "ex = concat (map (blocks_of gettext) (children tc))"
    using NoseRunner_children_extras [OF loop] by simp
  have joined: "extra_text r =
      py_join [CHR 0x0A, CHR 0x0A] (concat (map (blocks_of gettext) (children tc)))"
    using extra ex by simp
  have special: "category r = SKIP \<and>
          (\<exists>pre post. extra_text r =
             pre @ (''----- '' @ gettext ''Captured stdout'' @ '' -----\<newline>hello'') @ post)"
    if h: "filter is_outcome (children tc) = [sk] \<and> tag sk = ''skipped'' \<and>
           so \<in> set (children tc) \<and> tag so = ''system-out'' \<and>
           etext so = Some ''hello\<newline>''"
    for sk so
  proof
    show "category r = SKIP"
      using NoseRunner_children_outcome [OF loop] h cat by simp
    have "blocks_of gettext so
            = [''----- '' @ gettext ''Captured stdout'' @ '' -----\<newline>hello'']"
      using hello_block h by simp
    then have "(''----- '' @ gettext ''Captured stdout'' @ '' -----\<newline>hello'')
                 \<in> set (concat (map (blocks_of gettext) (children tc)))"
      using h by force
    then show "\<exists>pre post. extra_text r =
             pre @ (''----- '' @ gettext ''Captured stdout'' @ '' -----\<newline>hello'') @ post"
      unfolding joined by (rule py_join_contains)
  qed
  show ?thesis
    using r joined special by blast
qed

theorem captured_output_blocks_witness:
  "\<exists>r. NoseRunner_testcase example_gettext example_float example_nose_testcase = Inr r \<and>
        category r = SKIP \<and>
        extra_text r =
          ''SkipTest: later\<newline>\<newline>----- Captured stdout -----\<newline>hello''"
proof -
  have wf: "DialectB_testcase example_float example_nose_testcase"
    using example_nose_wellformed by (simp add: example_nose_root_def)
  have kids: "children example_nose_testcase = [example_skipped, example_system_out]"
    by (simp add: example_nose_testcase_def)
  have sk: "filter is_outcome (children example_nose_testcase) = [example_skipped]"
           "tag example_skipped = ''skipped''"
    by (simp_all add: kids is_outcome_def example_skipped_def example_system_out_def)
  have so: "example_system_out \<in> set (children example_nose_testcase)"
           "tag example_system_out = ''system-out''"
           "etext example_system_out = Some ''hello\<newline>''"
    by (simp_all add: kids example_system_out_def)
  have blocks: "py_join [CHR 0x0A, CHR 0x0A]
                  (concat (map (blocks_of example_gettext) (children example_nose_testcase)))
                = ''SkipTest: later\<newline>\<newline>----- Captured stdout -----\<newline>hello''"
    by (simp add: kids blocks_of_def stream_block_def is_outcome_def is_stream_def
        example_skipped_def example_system_out_def example_gettext_def rstrip_newline_def)
  from captured_output_blocks [OF wf, of example_gettext]
  obtain r where r:
    "NoseRunner_testcase example_gettext example_float example_nose_testcase = Inr r \<and>
     extra_text r = py_join [CHR 0x0A, CHR 0x0A]
        (concat (map (blocks_of example_gettext) (children example_nose_testcase))) \<and>
     (\<forall>sk so. filter is_outcome (children example_nose_testcase) = [sk] \<and>
            tag sk = ''skipped'' \<and> so \<in> set (children example_nose_testcase) \<and>
            tag so = ''system-out'' \<and> etext so = Some ''hello\<newline>'' \<longrightarrow>
            category r = SKIP \<and>
            (\<exists>pre post. extra_text r =
               pre @ (''----- '' @ example_gettext ''Captured stdout'' @ '' -----\<newline>hello'')
                 @ post))" ..
  note r1 = r [THEN conjunct1]
  note r2 = r [THEN conjunct2, THEN conjunct1]
  note r3 = r [THEN conjunct2, THEN conjunct2, rule_format, of example_skipped
      example_system_out]
  have "category r = SKIP"
    using r3 sk so by simp
  then show ?thesis
    using r1 r2 blocks by simp
qed

section \<open>One result per testcase\<close>

text \<open>
  C7. For a result file whose root has N testcase children, all of them well-formed for
  the dialect, \<open>load_data\<close> returns N results, and the i-th result is the one built from
  the i-th testcase (so the names appear in document order). Well-formed means: the
  \<open>time\<close> attribute is accepted by \<open>float\<close>; for testrunner.py every child of the
  testcase is an outcome element; for noserunner.py every captured-output child has text.
\<close>

theorem one_result_per_testcase:
  assumes "fs path = Some (Document root)"
  shows "(list_all (DialectA_testcase pf) (children root) \<longrightarrow>
            (\<exists>rs. TestRunner_load_data pf fs path = Inr rs \<and>
                  length rs = length (children root) \<and>
                  list_all2 (\<lambda>testcase r. TestRunner_testcase pf testcase = Inr r)
                    (children root) rs \<and>
                  map name rs = map testcase_name (children root))) \<and>
         (list_all (DialectB_testcase pf) (children root) \<longrightarrow>
            (\<exists>rs. NoseRunner_load_data gettext pf fs path = Inr rs \<and>
                  length rs = length (children root) \<and>
                  list_all2 (\<lambda>testcase r. NoseRunner_testcase gettext pf testcase = Inr r)
                    (children root) rs \<and>
                  map name rs = map testcase_name (children root)))"
proof (intro conjI impI)
  assume "list_all (DialectA_testcase pf) (children root)"
  then obtain rs
    where load: "TestRunner_load_data pf fs path = Inr rs"
      and rs: "list_all2 (\<lambda>tc r. TestRunner_testcase pf tc = Inr r) (children root) rs"
    using TestRunner_load_data_records [where fs = fs and path = path, OF assms] by blast
  have "length rs = length (children root)"
    using rs by (simp add: list_all2_lengthD)
  moreover have "map name rs = map testcase_name (children root)"
    using list_all2_names [OF rs] TestRunner_testcase_name by blast
  ultimately show "\<exists>rs. TestRunner_load_data pf fs path = Inr rs \<and>
                  length rs = length (children root) \<and>
                  list_all2 (\<lambda>testcase r. TestRunner_testcase pf testcase = Inr r)
                    (children root) rs \<and>
                  map name rs = map testcase_name (children root)"
    using load rs by blast
next
  assume "list_all (DialectB_testcase pf) (children root)"
  then obtain rs
    where load: "NoseRunner_load_data gettext pf fs path = Inr rs"
      and rs: "list_all2 (\<lambda>tc r. NoseRunner_testcase gettext pf tc = Inr r)
                 (children root) rs"
    using NoseRunner_load_data_records [where fs = fs and path = path, OF assms] by blast
  have "length rs = length (children root)"
    using rs by (simp add: list_all2_lengthD)
  moreover have "map name rs = map testcase_name (children root)"
    using list_all2_names [OF rs] NoseRunner_testcase_name by blast
  ultimately show "\<exists>rs. NoseRunner_load_data gettext pf fs path = Inr rs \<and>
                  length rs = length (children root) \<and>
                  list_all2 (\<lambda>testcase r. NoseRunner_testcase gettext pf testcase = Inr r)
                    (children root) rs \<and>
                  map name rs = map testcase_name (children root)"
    using load rs by blast
qed

theorem one_result_per_testcase_witness:
  "(\<exists>rs. TestRunner_load_data example_float example_files ''pytest.xml'' = Inr rs \<and>
         length rs = 2 \<and> map name rs = [''TestA.test_one'', ''TestA.test_two'']) \<and>
   (\<exists>rs. NoseRunner_load_data example_gettext example_float example_files ''nose.xml''
           = Inr rs \<and>
         length rs = 1 \<and> map name rs = [''TestB.test_skip''])"
proof -
  have a: "\<exists>rs. TestRunner_load_data example_float example_files ''pytest.xml'' = Inr rs \<and>
           length rs = length (children example_pytest_root) \<and>
           map name rs = map testcase_name (children example_pytest_root)"
    using one_result_per_testcase [where fs = example_files and path = "''pytest.xml''"
        and pf = example_float, OF example_pytest_file]
      example_pytest_wellformed by blast
  have b: "\<exists>rs. NoseRunner_load_data example_gettext example_float example_files ''nose.xml''
             = Inr rs \<and>
           length rs = length (children example_nose_root) \<and>
           map name rs = map testcase_name (children example_nose_root)"
    using one_result_per_testcase [where fs = example_files and path = "''nose.xml''"
        and pf = example_float and gettext = example_gettext, OF example_nose_file]
      example_nose_wellformed by blast
  have c: "length (children example_pytest_root) = 2"
          "map testcase_name (children example_pytest_root)
             = [''TestA.test_one'', ''TestA.test_two'']"
    by (simp_all add: example_pytest_root_def testcase_name_def get_def py_str_def)
  have d: "length (children example_nose_root) = 1"
          "map testcase_name (children example_nose_root) = [''TestB.test_skip'']"
    by (simp_all add: example_nose_root_def example_nose_testcase_def testcase_name_def
        get_def py_str_def)
  show ?thesis using a b unfolding c d by blast
qed

section \<open>An unknown framework\<close>

text \<open>
  C8. When the framework of the configuration is neither \<open>nose\<close> nor \<open>py.test\<close>,
  \<open>start\<close> raises the error for an unknown framework (\<open>ValueError('Unknown framework')\<close>)
  before anything is launched: the process object it has created was never started and
  is not running, and the result file and the notifications are untouched.
\<close>

theorem unknown_framework:
  assumes "framework config \<noteq> ''nose''" and "framework config \<noteq> ''py.test''"
  shows "fst (start h config pythonpath self) = Inl (ValueError ''Unknown framework'') \<and>
         (\<exists>p. process (snd (start h config pythonpath self)) = Some p \<and>
              pstate p = NotRunning \<and> command p = None) \<and>
         files (snd (start h config pythonpath self)) = files self \<and>
         emitted (snd (start h config pythonpath self)) = emitted self \<and>
         resultfilename (snd (start h config pythonpath self)) = resultfilename self"
  unfolding start_unknown [OF assms]
  by (cases pythonpath) (simp_all add: new_QProcess_def)

theorem unknown_framework_witness:
  "fst (start example_host \<lparr>framework = ''unittest'', wdir = ''/proj''\<rparr> None example_runner)
     = Inl (ValueError ''Unknown framework'') \<and>
   files (snd (start example_host \<lparr>framework = ''unittest'', wdir = ''/proj''\<rparr> None
                 example_runner)) ''unittest.results'' = None \<and>
   emitted (snd (start example_host \<lparr>framework = ''unittest'', wdir = ''/proj''\<rparr> None
                   example_runner)) = []"
proof -
  have a: "framework \<lparr>framework = ''unittest'', wdir = ''/proj''\<rparr> \<noteq> ''nose''"
          "framework \<lparr>framework = ''unittest'', wdir = ''/proj''\<rparr> \<noteq> ''py.test''"
    by simp_all
  show ?thesis
    using unknown_framework [OF a, of example_host None example_runner]
    by (simp add: example_runner_def)
qed

section \<open>Only the first child counts in testrunner.py\<close>

text \<open>
  C9, as amended. In testrunner.py the result of a testcase with children depends on the
  first child only: replacing the later siblings changes nothing; the status is the tag
  of the first child, whatever it is, and message and \<open>extra_text\<close> come from that child.
  When the \<open>time\<close> attribute is a number and the tag of the first child is none of
  \<open>ok\<close>, \<open>error\<close>, \<open>failure\<close>, \<open>skipped\<close>, the lookup in \<open>STATUS_TO_CATEGORY\<close>
  raises \<open>KeyError\<close>. The claim as stated leaves \<open>ok\<close> out of the list: a first child
  tagged \<open>ok\<close> is in the table and gives category \<open>OK\<close>, as the counterexample shows.
\<close>

theorem first_child_decides:
  assumes "children tc = c # cs"
  shows "(children tc' = c # cs' \<and> attrib tc' = attrib tc \<longrightarrow>
            TestRunner_testcase pf tc' = TestRunner_testcase pf tc) \<and>
         (TestRunner_testcase pf tc = Inr r \<longrightarrow>
            status r = tag c \<and> message r = TestRunner_message c \<and>
            extra_text r = (case etext c of None \<Rightarrow> '''' | Some t \<Rightarrow> t) \<and>
            STATUS_TO_CATEGORY (tag c) = Some (category r)) \<and>
         (has_time pf tc \<and> tag c \<notin> set [''ok'', ''error'', ''failure'', ''skipped''] \<longrightarrow>
            TestRunner_testcase pf tc = Inl (KeyError (tag c)))"
proof (intro conjI impI)
  assume h: "children tc' = c # cs' \<and> attrib tc' = attrib tc"
  then have g: "get tc' ''time'' = get tc ''time''" "testcase_name tc' = testcase_name tc"
    by (simp_all add: get_def testcase_name_def)
  show "TestRunner_testcase pf tc' = TestRunner_testcase pf tc"
  proof (cases "py_float pf (get tc ''time'')")
    case (Inl e)
    then show ?thesis using g by (simp add: TestRunner_testcase_def)
  next
    case (Inr tm)
    have k: "children tc' = c # cs'" using h by simp
    have tm': "py_float pf (get tc' ''time'') = Inr tm" using Inr g by simp
    show ?thesis
      using TestRunner_testcase_first_child [OF assms Inr]
        TestRunner_testcase_first_child [OF k tm'] g
      by (simp split: option.splits)
  qed
next
  assume r: "TestRunner_testcase pf tc = Inr r"
  then have tm: "py_float pf (get tc ''time'') = Inr (time r)"
    by (rule TestRunner_testcase_time)
  have "(case STATUS_TO_CATEGORY (tag c) of
           None \<Rightarrow> Inl (KeyError (tag c))
         | Some cat \<Rightarrow>
             Inr \<lparr>category = cat, status = tag c, name = testcase_name tc,
                  message = TestRunner_message c, time = time r,
                  extra_text = (case etext c of None \<Rightarrow> '''' | Some t \<Rightarrow> t)\<rparr>) = Inr r"
    using TestRunner_testcase_first_child [OF assms tm] r by simp
  then have "\<exists>cat. STATUS_TO_CATEGORY (tag c) = Some cat \<and>
          r = \<lparr>category = cat, status = tag c, name = testcase_name tc,
                  message = TestRunner_message c, time = time r,
                  extra_text = (case etext c of None \<Rightarrow> '''' | Some t \<Rightarrow> t)\<rparr>"
    by (cases "STATUS_TO_CATEGORY (tag c)") auto
  then obtain cat where cat: "STATUS_TO_CATEGORY (tag c) = Some cat"
     and req: "r = \<lparr>category = cat, status = tag c, name = testcase_name tc,
                  message = TestRunner_message c, time = time r,
                  extra_text = (case etext c of None \<Rightarrow> '''' | Some t \<Rightarrow> t)\<rparr>"
    by auto
  have f1: "status r = tag c" by (subst req) simp
  have f2: "message r = TestRunner_message c" by (subst req) simp
  have f3: "extra_text r = (case etext c of None \<Rightarrow> '''' | Some t \<Rightarrow> t)"
    by (subst req) simp
  have f4: "category r = cat" by (subst req) simp
  show "status r = tag c" by (rule f1)
  show "message r = TestRunner_message c" by (rule f2)
  show "extra_text r = (case etext c of None \<Rightarrow> '''' | Some t \<Rightarrow> t)" by (rule f3)
  show "STATUS_TO_CATEGORY (tag c) = Some (category r)" using cat f4 by simp
next
  assume h: "has_time pf tc \<and> tag c \<notin> set [''ok'', ''error'', ''failure'', ''skipped'']"
  then obtain tm where tm: "py_float pf (get tc ''time'') = Inr tm"
    using has_time_py_float [of pf tc] by auto
  have "STATUS_TO_CATEGORY (tag c) = None"
    using h not_in_table by simp
  then show "TestRunner_testcase pf tc = Inl (KeyError (tag c))"
    using TestRunner_testcase_first_child [OF assms tm] by simp
qed

theorem first_child_decides_witness:
  "TestRunner_testcase example_float example_stream_first = Inl (KeyError ''system-out'') \<and>
   TestRunner_testcase example_float
     (Element ''testcase'' (attrib example_stream_first) None
        [Element ''system-out'' [] (Some ''hello'') []])
     = TestRunner_testcase example_float example_stream_first"
proof -
  have a: "children example_stream_first
             = Element ''system-out'' [] (Some ''hello'') [] # [example_failure]"
    by (simp add: example_stream_first_def)
  have b: "has_time example_float example_stream_first"
    by (simp add: has_time_def get_def example_stream_first_def example_float_def)
  show ?thesis
    using first_child_decides [OF a, where pf = example_float and cs' = "[]"
        and tc' = "Element ''testcase'' (attrib example_stream_first) None
                     [Element ''system-out'' [] (Some ''hello'') []]"] b
    by simp
qed

theorem first_child_ok_counterexample:
  "tag (Element ''ok'' [] None []) \<notin> set [''error'', ''failure'', ''skipped''] \<and>
   TestRunner_testcase example_float
     (Element ''testcase''
        [(''classname'', ''TestA''), (''name'', ''test_one''), (''time'', ''0.01'')] None
        [Element ''ok'' [] None []])
     = Inr \<lparr>category = OK, status = ''ok'', name = ''TestA.test_one'', message = '''',
            time = ''0.01'', extra_text = ''''\<rparr>"
  by (simp add: TestRunner_testcase_def py_float_def get_def example_float_def
      testcase_name_def py_str_def STATUS_TO_CATEGORY_def TestRunner_message_def
      get_default_def)

section \<open>A captured-output child without text\<close>

text \<open>
  C10. In noserunner.py a testcase whose \<open>time\<close> is a number and which has a
  \<open>system-out\<close> or \<open>system-err\<close> child with no text yields no result: \<open>child.text\<close> is
  \<open>None\<close>, \<open>rstrip\<close> raises \<open>AttributeError\<close>, and \<open>load_data\<close> of a file that
  contains such a testcase raises.
\<close>

theorem stream_child_without_text:
  assumes "has_time pf tc" and "child \<in> set (children tc)"
      and "is_stream child" and "etext child = None"
  shows "NoseRunner_testcase gettext pf tc = Inl AttributeError \<and>
         (\<forall>fs path root. fs path = Some (Document root) \<and> tc \<in> set (children root) \<longrightarrow>
            (\<exists>e. NoseRunner_load_data gettext pf fs path = Inl e))"
proof
  obtain tm where tm: "py_float pf (get tc ''time'') = Inr tm"
    using has_time_py_float [OF assms(1)] by auto
  have "NoseRunner_children gettext (children tc) (OK, ''ok'', '''', []) = Inl AttributeError"
    using assms(2,3,4) by (rule NoseRunner_children_error)
  then show a: "NoseRunner_testcase gettext pf tc = Inl AttributeError"
    using tm by (simp add: NoseRunner_testcase_def)
  show "\<forall>fs path root. fs path = Some (Document root) \<and> tc \<in> set (children root) \<longrightarrow>
            (\<exists>e. NoseRunner_load_data gettext pf fs path = Inl e)"
  proof (intro allI impI)
    fix fs :: filesystem and path root
    assume h: "fs path = Some (Document root) \<and> tc \<in> set (children root)"
    then have rd: "read_data fs path = Inr (children root)"
      by (simp add: read_data_def etree_parse_def)
    have mem: "tc \<in> set (children root)" using h by simp
    show "\<exists>e. NoseRunner_load_data gettext pf fs path = Inl e"
      using NoseRunner_loop_first_error [OF a mem, where acc = "[]"] rd
      by (simp add: NoseRunner_load_data_def)
  qed
qed

theorem stream_child_without_text_witness:
  "NoseRunner_testcase example_gettext example_float example_empty_stream = Inl AttributeError \<and>
   (\<exists>e. NoseRunner_load_data example_gettext example_float
          [''nose.xml'' \<mapsto> Document (Element ''testsuite'' [] None [example_empty_stream])]
          ''nose.xml'' = Inl e)"
proof -
  have a: "has_time example_float example_empty_stream"
    by (simp add: has_time_def get_def example_empty_stream_def example_float_def)
  have b: "Element ''system-out'' [] None [] \<in> set (children example_empty_stream)"
    by (simp add: example_empty_stream_def)
  have c: "is_stream (Element ''system-out'' [] None [])"
          "etext (Element ''system-out'' [] None []) = None"
    by (simp_all add: is_stream_def)
  note t = stream_child_without_text [OF a b c, of example_gettext]
  have "[''nose.xml'' \<mapsto> Document (Element ''testsuite'' [] None [example_empty_stream])]
          ''nose.xml'' = Some (Document (Element ''testsuite'' [] None [example_empty_stream]))
        \<and> example_empty_stream
            \<in> set (children (Element ''testsuite'' [] None [example_empty_stream]))"
    by simp
  then have "\<exists>e. NoseRunner_load_data example_gettext example_float
          [''nose.xml'' \<mapsto> Document (Element ''testsuite'' [] None [example_empty_stream])]
          ''nose.xml'' = Inl e"
    by (rule t [THEN conjunct2, rule_format])
  then show ?thesis
    using t [THEN conjunct1] by simp
qed

end
